theory Spec2Isabelle
  imports Main "HOL-Library.Char_ord" "HOL-Library.List_Lexorder" "HOL-Library.AList"
begin

section \<open>Python strings\<close>

text \<open>
  A Python \<open>str\<close> is modelled as a HOL \<open>string\<close>; a \<open>char\<close> stands for the code
  point of the same number, so the model covers the code points U+0000 to U+00FF.
  On that range \<open>str.isspace\<close>, \<open>str.lower\<close> and the line boundaries of
  \<open>str.splitlines\<close> are the tables below. Strings compare by code point, as \<open>sorted\<close>
  compares them.
\<close>

type_synonym path = string

definition NL :: char where
  "NL = CHR 0x0A"

definition isspace :: "char \<Rightarrow> bool" where
  "isspace c = (of_char c \<in> {9, 10, 11, 12, 13, 28, 29, 30, 31, 32, 133, 160 :: nat})"

definition lower_char :: "char \<Rightarrow> char" where
  "lower_char c =
     (let n = (of_char c :: nat)
      in if (65 \<le> n \<and> n \<le> 90) \<or> (192 \<le> n \<and> n \<le> 222 \<and> n \<noteq> 215)
         then char_of (n + 32) else c)"

definition lower :: "string \<Rightarrow> string" where
  "lower s = map lower_char s"

definition strip :: "string \<Rightarrow> string" where
  "strip s = rev (dropWhile isspace (rev (dropWhile isspace s)))"

definition startswith :: "string \<Rightarrow> string \<Rightarrow> bool" where
  "startswith s pre = (take (length pre) s = pre)"

definition is_linebreak :: "char \<Rightarrow> bool" where
  "is_linebreak c = (of_char c \<in> {10, 11, 12, 13, 28, 29, 30, 133 :: nat})"

text \<open>
  \<open>str.splitlines()\<close>: \<open>cur\<close> is the line being read. A carriage return followed by a
  line feed is one boundary, and a last line that is empty is not returned.
\<close>

fun splitlines_from :: "string \<Rightarrow> string \<Rightarrow> string list" where
  "splitlines_from cur [] = (if cur = [] then [] else [cur])"
| "splitlines_from cur (c # cs) =
     (if is_linebreak c
      then cur # (case cs of
                    d # ds \<Rightarrow> if c = CHR 0x0D \<and> d = CHR 0x0A then splitlines_from [] ds
                              else splitlines_from [] cs
                  | [] \<Rightarrow> splitlines_from [] cs)
      else splitlines_from (cur @ [c]) cs)"

definition splitlines :: "string \<Rightarrow> string list" where
  "splitlines s = splitlines_from [] s"

fun join :: "string \<Rightarrow> string list \<Rightarrow> string" where
  "join sep [] = []"
| "join sep [x] = x"
| "join sep (x # y # ys) = x @ sep @ join sep (y # ys)"

fun str_nat :: "nat \<Rightarrow> string" where
  "str_nat n = (if n < 10 then [char_of (48 + n)]
                else str_nat (n div 10) @ [char_of (48 + n mod 10)])"

declare str_nat.simps [simp del]

text \<open>\<open>s.rfind(c)\<close>: the highest index of \<open>c\<close> in \<open>s\<close>, or \<open>-1\<close>.\<close>

definition rfind :: "string \<Rightarrow> char \<Rightarrow> int" where
  "rfind s c =
     (if c \<in> set s then int (length s) - 1 - int (length (takeWhile (\<lambda>x. x \<noteq> c) (rev s)))
      else - 1)"

section \<open>Path names\<close>

text \<open>
  \<open>PurePath.suffix\<close> and \<open>PurePath.stem\<close> of a file name, as pathlib defines them: the
  suffix starts at the last dot, unless that dot is the first or the last character.
\<close>

definition suffix :: "string \<Rightarrow> string" where
  "suffix name =
     (let i = rfind name (CHR ''.'')
      in if 0 < i \<and> i < int (length name) - 1 then drop (nat i) name else [])"

definition stem :: "string \<Rightarrow> string" where
  "stem name =
     (let i = rfind name (CHR ''.'')
      in if 0 < i \<and> i < int (length name) - 1 then take (nat i) name else name)"

text \<open>\<open>PurePath.name\<close> of a relative POSIX path that does not end in a slash or a dot.\<close>

definition path_name :: "string \<Rightarrow> string" where
  "path_name rel = rev (takeWhile (\<lambda>x. x \<noteq> CHR ''/'') (rev rel))"

section \<open>Regular expressions\<close>

text \<open>
  The two patterns are matched with \<open>re.match\<close> and without flags: \<open>^\<close> is the start of
  the string, a character class holds ASCII characters only, and \<open>$\<close> holds at the end of
  the string and also just before a line feed that ends the string.
\<close>

definition is_az :: "char \<Rightarrow> bool" where
  "is_az c = (97 \<le> (of_char c :: nat) \<and> (of_char c :: nat) \<le> 122)"

definition is_09 :: "char \<Rightarrow> bool" where
  "is_09 c = (48 \<le> (of_char c :: nat) \<and> (of_char c :: nat) \<le> 57)"

definition dollar :: "string \<Rightarrow> bool" where
  "dollar rest = (rest = [] \<or> rest = [NL])"

text \<open>\<open>ALPHA2_RE = ^[a-z]{2}$\<close>\<close>

definition ALPHA2_RE_match :: "string \<Rightarrow> bool" where
  "ALPHA2_RE_match s =
     (case s of a # b # rest \<Rightarrow> is_az a \<and> is_az b \<and> dollar rest | _ \<Rightarrow> False)"

text \<open>\<open>DEFAULT_PNG_RE = ^[a-z0-9][a-z0-9\-]*$\<close>; \<open>key_tail\<close> is \<open>[a-z0-9\-]*$\<close>.\<close>

fun key_tail :: "string \<Rightarrow> bool" where
  "key_tail [] = True"
| "key_tail (c # cs) =
     (((is_az c \<or> is_09 c \<or> c = CHR ''-'') \<and> key_tail cs) \<or> dollar (c # cs))"

definition DEFAULT_PNG_RE_match :: "string \<Rightarrow> bool" where
  "DEFAULT_PNG_RE_match s =
     (case s of c # cs \<Rightarrow> (is_az c \<or> is_09 c) \<and> key_tail cs | [] \<Rightarrow> False)"

section \<open>Configuration and file name validation\<close>

record ValidationConfig =
  resources_dir :: path
  allowlist_path :: "path option"
  require_fallback_code :: "string option"
  strict_alpha2 :: bool
  extra_allowed_codes :: "string set"

definition validate_filename :: "string \<Rightarrow> ValidationConfig \<Rightarrow> bool \<times> string option" where
  "validate_filename code cfg =
     (if code \<in> extra_allowed_codes cfg then (True, None)
      else if strict_alpha2 cfg then
        (if ALPHA2_RE_match code then (True, None)
         else (False, Some ''not ISO alpha-2 (expected exactly 2 lowercase letters)''))
      else
        (if DEFAULT_PNG_RE_match code then (True, None)
         else (False, Some ''invalid key format (expected lowercase letters/digits/dash)'')))"

section \<open>Messages\<close>

text \<open>
  The script collects its findings as formatted strings. The model keeps each finding
  with its parts; \<open>render_error\<close> and \<open>render_warning\<close> give the text of the message.
\<close>

datatype error_msg =
    ResourcesMissing path
  | ResourcesNotDir path
  | NoPngFiles path
  | InvalidFilename string "string option"
  | DuplicateCode string string string
  | MissingFallback string
  | AllowlistMissing path
  | MissingAllowlistCodes "string list"

datatype warning_msg =
    NonNormalized string string
  | ExtraPngs "string list" "nat option"

definition render_error :: "error_msg \<Rightarrow> string" where
  "render_error e =
     (case e of
        ResourcesMissing d \<Rightarrow> ''Resources directory does not exist: '' @ d
      | ResourcesNotDir d \<Rightarrow> ''Resources path is not a directory: '' @ d
      | NoPngFiles d \<Rightarrow>
          ''No PNG files found in: '' @ d @ [NL]
          @ ''Did you run update_flags.sh to generate resources?''
      | InvalidFilename name reason \<Rightarrow>
          ''Invalid filename: '' @ name @ '' (''
          @ (case reason of None \<Rightarrow> ''None'' | Some r \<Rightarrow> r) @ '')''
      | DuplicateCode normalized first name \<Rightarrow>
          ''Duplicate code after normalization: '' @ [CHR 0x27] @ normalized @ [CHR 0x27, NL]
          @ '' - '' @ first @ [NL] @ '' - '' @ name
      | MissingFallback name \<Rightarrow> ''Missing required fallback asset: '' @ name
      | AllowlistMissing a \<Rightarrow> ''Allowlist file does not exist: '' @ a
      | MissingAllowlistCodes missing \<Rightarrow>
          ''Missing PNGs for allowlist codes:'' @ [NL] @ ''  - ''
          @ join ([NL] @ ''  - '') missing)"

definition render_warning :: "warning_msg \<Rightarrow> string" where
  "render_warning w =
     (case w of
        NonNormalized name normalized \<Rightarrow>
          ''Non-normalized filename: '' @ name @ '' (should be '' @ normalized @ ''.png)''
      | ExtraPngs listed extra_count \<Rightarrow>
          ''Extra PNGs found not listed in allowlist (may be OK):'' @ [NL] @ ''  - ''
          @ join ([NL] @ ''  - '') listed
          @ (case extra_count of None \<Rightarrow> []
             | Some n \<Rightarrow> [NL] @ ''  ...and '' @ str_nat n @ '' more''))"

text \<open>
  \<open>report\<close> prints; the model returns the lines written to the standard output and to
  the standard error stream, one entry for each call of \<open>print\<close>.
\<close>

definition report :: "error_msg list \<Rightarrow> warning_msg list \<Rightarrow> string list \<times> string list" where
  "report errors warnings =
     (let werr = (if warnings \<noteq> []
                  then ''==> WARNINGS:'' # map (\<lambda>w. ''- '' @ render_warning w) warnings
                  else [])
      in if errors \<noteq> []
         then ([], werr @ [[NL] @ ''==> ERRORS:'']
                   @ map (\<lambda>err. ''- '' @ render_error err) errors
                   @ [[NL] @ ''Validation FAILED.''])
         else ([''Validation OK.''], werr))"

section \<open>Command line and file system\<close>

text \<open>
  The parsed command line (the namespace that \<open>argparse\<close> returns) and what the run
  reads from the file system. \<open>iterdir\<close> and \<open>read_text\<close> can raise; the other queries
  return a truth value.
\<close>

record args =
  arg_resources :: path
  arg_allowlist :: "path option"
  arg_require_fallback :: "string option"
  arg_strict_alpha2 :: bool
  arg_allow_extra :: "string list"

datatype py_exception = OSError | UnicodeDecodeError

record file_system =
  res_exists :: bool
  res_is_dir :: bool
  res_iterdir :: "py_exception + (string \<times> bool) list"
  res_child_exists :: "string \<Rightarrow> bool"
  allow_exists :: bool
  allow_read_text :: "py_exception + string"

text \<open>
  \<open>res_iterdir\<close> lists the entries of the resources directory, each with the answer of
  \<open>is_file()\<close>; \<open>res_child_exists rel\<close> is \<open>(resources_dir / rel).exists()\<close>;
  \<open>allow_read_text\<close> is the decoded text of the allowlist file.
\<close>

fun allowlist_lines :: "string list \<Rightarrow> string set \<Rightarrow> string set" where
  "allowlist_lines [] codes = codes"
| "allowlist_lines (raw # raws) codes =
     (let line = lower (strip raw)
      in if line = [] \<or> startswith line ''#'' then allowlist_lines raws codes
         else allowlist_lines raws (insert line codes))"

definition read_allowlist :: "file_system \<Rightarrow> py_exception + string set" where
  "read_allowlist fs =
     (case allow_read_text fs of
        Inl e \<Rightarrow> Inl e
      | Inr text \<Rightarrow> Inr (allowlist_lines (splitlines text) {}))"

definition list_png_files :: "file_system \<Rightarrow> py_exception + string list" where
  "list_png_files fs =
     (case res_iterdir fs of
        Inl e \<Rightarrow> Inl e
      | Inr entries \<Rightarrow>
          Inr (sort (map fst (filter (\<lambda>(p, is_file). is_file \<and> lower (suffix p) = ''.png'')
                                      entries))))"

section \<open>The run\<close>

definition truthy :: "string option \<Rightarrow> bool" where
  "truthy s = (case s of None \<Rightarrow> False | Some x \<Rightarrow> x \<noteq> [])"

definition make_config :: "args \<Rightarrow> ValidationConfig" where
  "make_config a =
     (let extra_allowed = set (map (\<lambda>c. lower (strip c))
                                   (filter (\<lambda>c. strip c \<noteq> []) (arg_allow_extra a)));
          extra_allowed' = (case arg_require_fallback a of
                              Some f \<Rightarrow> if f \<noteq> [] then insert (lower (strip f)) extra_allowed
                                        else extra_allowed
                            | None \<Rightarrow> extra_allowed)
      in \<lparr> resources_dir = arg_resources a,
           allowlist_path = arg_allowlist a,
           require_fallback_code =
             (case arg_require_fallback a of
                Some f \<Rightarrow> if f \<noteq> [] then Some (lower (strip f)) else None
              | None \<Rightarrow> None),
           strict_alpha2 = arg_strict_alpha2 a,
           extra_allowed_codes = extra_allowed' \<rparr>)"

text \<open>
  The state of the loop over the PNG files: the errors, the warnings and
  \<open>seen_normalized\<close>, a dictionary kept as an association list in insertion order.
\<close>

type_synonym loop_state = "error_msg list \<times> warning_msg list \<times> (string \<times> string) list"

definition check_file :: "ValidationConfig \<Rightarrow> string \<Rightarrow> loop_state \<Rightarrow> loop_state" where
  "check_file cfg p st =
     (case st of (errors, warnings, seen_normalized) \<Rightarrow>
        let code = stem p;
            normalized = lower (strip code);
            errors1 = (case validate_filename normalized cfg of
                         (ok, reason) \<Rightarrow>
                           if \<not> ok then errors @ [InvalidFilename p reason] else errors);
            dup = (case map_of seen_normalized normalized of
                     Some q \<Rightarrow> q \<noteq> p
                   | None \<Rightarrow> False);
            errors2 = (if dup
                       then errors1 @ [DuplicateCode normalized
                                         (the (map_of seen_normalized normalized)) p]
                       else errors1);
            seen2 = (if dup then seen_normalized
                     else AList.update normalized p seen_normalized);
            warnings1 = (if code \<noteq> normalized
                         then warnings @ [NonNormalized p normalized] else warnings)
        in (errors2, warnings1, seen2))"

fun check_files :: "ValidationConfig \<Rightarrow> string list \<Rightarrow> loop_state \<Rightarrow> loop_state" where
  "check_files cfg [] st = st"
| "check_files cfg (p # ps) st = check_files cfg ps (check_file cfg p st)"

definition check_fallback :: "ValidationConfig \<Rightarrow> file_system \<Rightarrow> error_msg list \<Rightarrow> error_msg list"
  where
  "check_fallback cfg fs errors =
     (if truthy (require_fallback_code cfg)
      then (let expected = the (require_fallback_code cfg) @ ''.png''
            in if \<not> res_child_exists fs expected
               then errors @ [MissingFallback (path_name expected)] else errors)
      else errors)"

definition check_allowlist ::
  "ValidationConfig \<Rightarrow> file_system \<Rightarrow> (string \<times> string) list
     \<Rightarrow> error_msg list \<times> warning_msg list
     \<Rightarrow> py_exception + error_msg list \<times> warning_msg list" where
  "check_allowlist cfg fs seen_normalized ew =
     (case ew of (errors, warnings) \<Rightarrow>
        case allowlist_path cfg of
          None \<Rightarrow> Inr (errors, warnings)
        | Some a \<Rightarrow>
            if \<not> allow_exists fs then Inr (errors @ [AllowlistMissing a], warnings)
            else
              case read_allowlist fs of
                Inl e \<Rightarrow> Inl e
              | Inr required_codes \<Rightarrow>
                  let present_codes = set (map fst seen_normalized);
                      missing = sorted_list_of_set
                                  {c \<in> required_codes. c \<notin> present_codes};
                      extra = sorted_list_of_set
                                {c \<in> present_codes. c \<notin> required_codes};
                      errors1 = (if missing \<noteq> []
                                 then errors @ [MissingAllowlistCodes missing] else errors);
                      warnings1 = (if extra \<noteq> []
                                   then warnings @ [ExtraPngs (take 80 extra)
                                          (if length extra \<le> 80 then None
                                           else Some (length extra - 80))]
                                   else warnings)
                  in Inr (errors1, warnings1))"

record outcome =
  exit_code :: int
  errors_of :: "error_msg list"
  warnings_of :: "warning_msg list"
  stdout :: "string list"
  stderr :: "string list"

definition finish :: "int \<Rightarrow> error_msg list \<Rightarrow> warning_msg list \<Rightarrow> outcome" where
  "finish rc errors warnings =
     \<lparr> exit_code = rc, errors_of = errors, warnings_of = warnings,
       stdout = fst (report errors warnings), stderr = snd (report errors warnings) \<rparr>"

definition main :: "args \<Rightarrow> file_system \<Rightarrow> py_exception + outcome" where
  "main a fs =
     (let cfg = make_config a
      in if \<not> res_exists fs
         then Inr (finish 2 [ResourcesMissing (resources_dir cfg)] [])
         else if \<not> res_is_dir fs
         then Inr (finish 2 [ResourcesNotDir (resources_dir cfg)] [])
         else
           case list_png_files fs of
             Inl e \<Rightarrow> Inl e
           | Inr pngs \<Rightarrow>
               if pngs = []
               then Inr (finish 2 [NoPngFiles (resources_dir cfg)] [])
               else
                 case check_files cfg pngs ([], [], []) of
                   (errors, warnings, seen_normalized) \<Rightarrow>
                     case check_allowlist cfg fs seen_normalized
                            (check_fallback cfg fs errors, warnings) of
                       Inl e \<Rightarrow> Inl e
                     | Inr (errors', warnings') \<Rightarrow>
                         Inr (finish (if errors' = [] then 0 else 2) errors' warnings'))"

section \<open>Notions used in the statements\<close>

text \<open>The normalized code of a PNG file: its stem, trimmed and lower-cased.\<close>

definition code_of :: "string \<Rightarrow> string" where
  "code_of p = lower (strip (stem p))"

text \<open>The PNG files of a directory listing, before they are sorted.\<close>

definition png_entries :: "(string \<times> bool) list \<Rightarrow> (string \<times> bool) list" where
  "png_entries entries =
     filter (\<lambda>(p, is_file). is_file \<and> lower (suffix p) = ''.png'') entries"

text \<open>
  What one pass of the loop adds for the file \<open>p\<close>: the error of an invalid name, the
  error of a duplicate (against the dictionary \<open>seen\<close>) and the warning of a name that is
  not normalized. \<open>first_file seen ps n\<close> is the file that the dictionary holds for the
  code \<open>n\<close> once the files \<open>ps\<close> have been visited.
\<close>

definition invalid_errors :: "ValidationConfig \<Rightarrow> string \<Rightarrow> error_msg list" where
  "invalid_errors cfg p =
     (if fst (validate_filename (code_of p) cfg) then []
      else [InvalidFilename p (snd (validate_filename (code_of p) cfg))])"

definition duplicate_errors :: "(string \<times> string) list \<Rightarrow> string \<Rightarrow> error_msg list" where
  "duplicate_errors seen p =
     (case map_of seen (code_of p) of
        Some q \<Rightarrow> if q \<noteq> p then [DuplicateCode (code_of p) q p] else []
      | None \<Rightarrow> [])"

definition name_warnings :: "string \<Rightarrow> warning_msg list" where
  "name_warnings p = (if stem p \<noteq> code_of p then [NonNormalized p (code_of p)] else [])"

definition first_file :: "(string \<times> string) list \<Rightarrow> string list \<Rightarrow> string \<Rightarrow> string option" where
  "first_file seen ps n =
     (case map_of seen n of Some q \<Rightarrow> Some q | None \<Rightarrow> find (\<lambda>x. code_of x = n) ps)"


definition is_file_error :: "error_msg \<Rightarrow> bool" where
  "is_file_error e =
     (case e of InvalidFilename x reason \<Rightarrow> True | DuplicateCode n x y \<Rightarrow> True | _ \<Rightarrow> False)"

section \<open>Example inputs\<close>

definition args_plain :: args where
  "args_plain =
     \<lparr> arg_resources = ''Resources'', arg_allowlist = None, arg_require_fallback = None,
       arg_strict_alpha2 = False, arg_allow_extra = [] \<rparr>"

definition args_strict :: args where
  "args_strict =
     \<lparr> arg_resources = ''Resources'', arg_allowlist = None, arg_require_fallback = None,
       arg_strict_alpha2 = True, arg_allow_extra = [] \<rparr>"

definition args_full :: args where
  "args_full =
     \<lparr> arg_resources = ''Resources'', arg_allowlist = Some ''allowed_codes.txt'',
       arg_require_fallback = Some ''xx'', arg_strict_alpha2 = True,
       arg_allow_extra = [''EU''] \<rparr>"

text \<open>
  A resources directory with the given entries, on a file system that tells names apart
  by case, and an allowlist file with the given text.
\<close>

definition fs_of :: "(string \<times> bool) list \<Rightarrow> string \<Rightarrow> file_system" where
  "fs_of entries text =
     \<lparr> res_exists = True, res_is_dir = True, res_iterdir = Inr entries,
       res_child_exists = (\<lambda>rel. rel \<in> set (map fst entries)),
       allow_exists = True, allow_read_text = Inr text \<rparr>"

definition fs_absent :: file_system where
  "fs_absent =
     \<lparr> res_exists = False, res_is_dir = False, res_iterdir = Inl OSError,
       res_child_exists = (\<lambda>rel. False),
       allow_exists = True, allow_read_text = Inl OSError \<rparr>"

definition fs_not_dir :: file_system where
  "fs_not_dir =
     \<lparr> res_exists = True, res_is_dir = False, res_iterdir = Inl OSError,
       res_child_exists = (\<lambda>rel. False),
       allow_exists = True, allow_read_text = Inl OSError \<rparr>"

definition fs_no_png :: file_system where
  "fs_no_png =
     \<lparr> res_exists = True, res_is_dir = True,
       res_iterdir = Inr [(''.gitkeep'', True), (''us.txt'', True), (''old.png'', False)],
       res_child_exists = (\<lambda>rel. rel \<in> set [''.gitkeep'', ''us.txt'', ''old.png'']),
       allow_exists = True, allow_read_text = Inl OSError \<rparr>"


section \<open>Supporting facts\<close>

lemma validate_filename_cases:
  "validate_filename code cfg = (True, None)
   \<or> validate_filename code cfg
       = (False, Some ''not ISO alpha-2 (expected exactly 2 lowercase letters)'')
   \<or> validate_filename code cfg
       = (False, Some ''invalid key format (expected lowercase letters/digits/dash)'')"
  by (simp add: validate_filename_def)

lemma list_png_files_entries:
  "res_iterdir fs = Inr entries \<Longrightarrow> list_png_files fs = Inr (sort (map fst (png_entries entries)))"
  by (simp add: list_png_files_def png_entries_def)

lemma list_png_files_raises:
  "res_iterdir fs = Inl e \<Longrightarrow> list_png_files fs = Inl e"
  by (simp add: list_png_files_def)

lemma finish_simps [simp]:
  "exit_code (finish rc es ws) = rc"
  "errors_of (finish rc es ws) = es"
  "warnings_of (finish rc es ws) = ws"
  by (simp_all add: finish_def)

subsection \<open>The loop over the files\<close>

lemma check_file_eq:
  "\<exists>seen'. check_file cfg p (es, ws, seen)
     = (es @ invalid_errors cfg p @ duplicate_errors seen p, ws @ name_warnings p, seen')
     \<and> map_of seen' = (\<lambda>n. first_file seen [p] n)"
  by (auto simp: check_file_def Let_def invalid_errors_def duplicate_errors_def name_warnings_def
        code_of_def first_file_def update_conv fun_eq_iff split: prod.splits option.splits)

lemma first_file_step:
  "map_of seen1 = (\<lambda>n. first_file seen [p] n) \<Longrightarrow> first_file seen1 ps n = first_file seen (p # ps) n"
  by (auto simp: first_file_def split: option.splits)

lemma check_files_seen:
  "check_files cfg ps (es, ws, seen) = (es', ws', seen') \<Longrightarrow> map_of seen' n = first_file seen ps n"
proof (induction ps arbitrary: es ws seen)
  case Nil
  then show ?case by (simp add: first_file_def split: option.splits)
next
  case (Cons p ps)
  obtain seen1 where 1: "check_file cfg p (es, ws, seen)
     = (es @ invalid_errors cfg p @ duplicate_errors seen p, ws @ name_warnings p, seen1)"
    and 2: "map_of seen1 = (\<lambda>n. first_file seen [p] n)"
    using check_file_eq by blast
  from Cons.prems 1 have "check_files cfg ps (es @ invalid_errors cfg p @ duplicate_errors seen p, ws @ name_warnings p, seen1) = (es', ws', seen')"
    by simp
  from Cons.IH [OF this] have "map_of seen' n = first_file seen1 ps n" .
  with first_file_step [OF 2] show ?case by simp
qed

lemma check_files_warnings:
  "check_files cfg ps (es, ws, seen) = (es', ws', seen') \<Longrightarrow> ws' = ws @ concat (map name_warnings ps)"
proof (induction ps arbitrary: es ws seen)
  case Nil
  then show ?case by simp
next
  case (Cons p ps)
  obtain seen1 where 1: "check_file cfg p (es, ws, seen)
     = (es @ invalid_errors cfg p @ duplicate_errors seen p, ws @ name_warnings p, seen1)"
    using check_file_eq by blast
  from Cons.prems 1 have "check_files cfg ps (es @ invalid_errors cfg p @ duplicate_errors seen p, ws @ name_warnings p, seen1) = (es', ws', seen')"
    by simp
  from Cons.IH [OF this] show ?case by simp
qed

lemma check_files_invalid_count:
  "check_files cfg ps (es, ws, seen) = (es', ws', seen') \<Longrightarrow>
   count_list es' (InvalidFilename p r)
     = count_list es (InvalidFilename p r)
       + (if validate_filename (code_of p) cfg = (False, r) then count_list ps p else 0)"
proof (induction ps arbitrary: es ws seen)
  case Nil
  then show ?case by simp
next
  case (Cons x ps)
  obtain seen1 where 1: "check_file cfg x (es, ws, seen)
     = (es @ invalid_errors cfg x @ duplicate_errors seen x, ws @ name_warnings x, seen1)"
    using check_file_eq by blast
  from Cons.prems 1 have "check_files cfg ps (es @ invalid_errors cfg x @ duplicate_errors seen x, ws @ name_warnings x, seen1) = (es', ws', seen')"
    by simp
  from Cons.IH [OF this] have "count_list es' (InvalidFilename p r)
     = count_list (es @ invalid_errors cfg x @ duplicate_errors seen x) (InvalidFilename p r)
       + (if validate_filename (code_of p) cfg = (False, r) then count_list ps p else 0)" .
  moreover have "count_list (duplicate_errors seen x) (InvalidFilename p r) = 0"
    by (simp add: duplicate_errors_def split: option.splits)
  moreover have "count_list (invalid_errors cfg x) (InvalidFilename p r)
     = (if validate_filename (code_of p) cfg = (False, r) \<and> x = p then 1 else 0)"
    by (cases "validate_filename (code_of x) cfg") (auto simp: invalid_errors_def)
  ultimately show ?case by simp
qed



lemma find_in_set: "find P xs = Some y \<Longrightarrow> y \<in> set xs \<and> P y"
  by (induction xs) (auto split: if_splits)

lemma find_exists: "x \<in> set xs \<Longrightarrow> P x \<Longrightarrow> \<exists>y. find P xs = Some y"
  by (induction xs) auto

lemma check_files_keys:
  assumes "check_files cfg ps ([], [], []) = (es, ws, seen)"
  shows "set (map fst seen) = code_of ` set ps"
proof -
  have "dom (map_of seen) = code_of ` set ps"
  proof (rule set_eqI)
    fix n
    have "map_of seen n = find (\<lambda>x. code_of x = n) ps"
      using check_files_seen [OF assms, of n] by (simp add: first_file_def)
    then show "n \<in> dom (map_of seen) \<longleftrightarrow> n \<in> code_of ` set ps"
      using find_in_set [where P = "\<lambda>x. code_of x = n" and xs = ps]
        find_exists [where P = "\<lambda>x. code_of x = n" and xs = ps]
      by (auto simp: dom_def)
  qed
  then show ?thesis by (simp add: dom_map_of_conv_image_fst)
qed


lemma finite_allowlist_lines: "finite codes \<Longrightarrow> finite (allowlist_lines raws codes)"
  by (induction raws arbitrary: codes) (simp_all add: Let_def)

lemma finite_read_allowlist: "read_allowlist fs = Inr required \<Longrightarrow> finite required"
  by (auto simp: read_allowlist_def finite_allowlist_lines split: sum.splits)







lemma is_file_error_simps [simp]:
  "is_file_error (InvalidFilename x reason)"
  "is_file_error (DuplicateCode n x y)"
  "\<not> is_file_error (MissingFallback x)"
  "\<not> is_file_error (AllowlistMissing x)"
  "\<not> is_file_error (MissingAllowlistCodes xs)"
  by (simp_all add: is_file_error_def)






lemma check_files_only_file_errors:
  "check_files cfg ps (es, ws, seen) = (es', ws', seen') \<Longrightarrow>
   filter is_file_error es = es \<Longrightarrow> filter is_file_error es' = es'"
proof (induction ps arbitrary: es ws seen)
  case Nil
  then show ?case by simp
next
  case (Cons x ps)
  obtain seen1 where 1: "check_file cfg x (es, ws, seen)
     = (es @ invalid_errors cfg x @ duplicate_errors seen x, ws @ name_warnings x, seen1)"
    using check_file_eq by blast
  from Cons.prems 1 have 2: "check_files cfg ps (es @ invalid_errors cfg x @ duplicate_errors seen x, ws @ name_warnings x, seen1) = (es', ws', seen')"
    by simp
  have "filter is_file_error (es @ invalid_errors cfg x @ duplicate_errors seen x)
          = es @ invalid_errors cfg x @ duplicate_errors seen x"
    using Cons.prems(2)
    by (simp add: invalid_errors_def duplicate_errors_def split: option.splits)
  from Cons.IH [OF 2 this] show ?case .
qed

section \<open>Claims\<close>

text \<open>
  C1: whenever the run returns, its exit code is 2 exactly when the list of errors is
  not empty and 0 exactly when it is empty, so the warnings have no part in it.
\<close>

theorem C1_exit_code:
  "main a fs = Inr r \<Longrightarrow>
     (exit_code r = 2 \<longleftrightarrow> errors_of r \<noteq> []) \<and> (exit_code r = 0 \<longleftrightarrow> errors_of r = [])"
  by (auto simp: main_def Let_def split: if_splits sum.splits prod.splits)

theorem C1_exit_code_witness:
  "main args_plain (fs_of [(''Us.png'', True)] [])
     = Inr (finish 0 [] [NonNormalized ''Us.png'' ''us''])
   \<and> exit_code (finish 0 [] [NonNormalized ''Us.png'' ''us'']) = 0
   \<and> main args_plain (fs_of [(''u s.png'', True)] [])
     = Inr (finish 2 [InvalidFilename ''u s.png''
              (Some ''invalid key format (expected lowercase letters/digits/dash)'')] [])
   \<and> exit_code (finish 2 [InvalidFilename ''u s.png''
              (Some ''invalid key format (expected lowercase letters/digits/dash)'')] []) = 2"
proof -
  have ok: "main args_plain (fs_of [(''Us.png'', True)] [])
              = Inr (finish 0 [] [NonNormalized ''Us.png'' ''us''])"
    by code_simp
  have bad: "main args_plain (fs_of [(''u s.png'', True)] [])
     = Inr (finish 2 [InvalidFilename ''u s.png''
              (Some ''invalid key format (expected lowercase letters/digits/dash)'')] [])"
    by code_simp
  from C1_exit_code [OF ok] C1_exit_code [OF bad] ok bad show ?thesis
    by simp
qed

text \<open>
  C2: when the resources directory does not exist, is not a directory, or lists no file
  with the suffix \<open>.png\<close>, the run returns at once: its outcome is exit code 2 with
  that one error and no warning, and the report is the error alone. The outcome does
  not depend on the file names, on the fallback file or on the allowlist, which is not
  even read.
\<close>

theorem C2_hard_stop:
  "(\<not> res_exists fs \<longrightarrow>
      main a fs = Inr (finish 2 [ResourcesMissing (arg_resources a)] []))
   \<and> (res_exists fs \<and> \<not> res_is_dir fs \<longrightarrow>
      main a fs = Inr (finish 2 [ResourcesNotDir (arg_resources a)] []))
   \<and> (res_exists fs \<and> res_is_dir fs \<and> res_iterdir fs = Inr entries
        \<and> png_entries entries = [] \<longrightarrow>
      main a fs = Inr (finish 2 [NoPngFiles (arg_resources a)] []))
   \<and> finish 2 [e] []
       = \<lparr> exit_code = 2, errors_of = [e], warnings_of = [], stdout = [],
           stderr = [[NL] @ ''==> ERRORS:'', ''- '' @ render_error e,
                     [NL] @ ''Validation FAILED.''] \<rparr>"
  by (simp add: main_def Let_def make_config_def list_png_files_entries finish_def report_def)

theorem C2_hard_stop_witness:
  "main args_full fs_absent = Inr (finish 2 [ResourcesMissing ''Resources''] [])
   \<and> main args_full fs_not_dir = Inr (finish 2 [ResourcesNotDir ''Resources''] [])
   \<and> main args_full fs_no_png = Inr (finish 2 [NoPngFiles ''Resources''] [])"
proof -
  have 1: "\<not> res_exists fs_absent"
    by (simp add: fs_absent_def)
  have 2: "res_exists fs_not_dir \<and> \<not> res_is_dir fs_not_dir"
    by (simp add: fs_not_dir_def)
  have 3: "res_exists fs_no_png \<and> res_is_dir fs_no_png
           \<and> res_iterdir fs_no_png
              = Inr [(''.gitkeep'', True), (''us.txt'', True), (''old.png'', False)]
           \<and> png_entries [(''.gitkeep'', True), (''us.txt'', True), (''old.png'', False)] = []"
    by code_simp
  have r: "arg_resources args_full = ''Resources''"
    by (simp add: args_full_def)
  from C2_hard_stop [of fs_absent args_full] 1 r
  have a: "main args_full fs_absent = Inr (finish 2 [ResourcesMissing ''Resources''] [])"
    by simp
  from C2_hard_stop [of fs_not_dir args_full] 2 r
  have b: "main args_full fs_not_dir = Inr (finish 2 [ResourcesNotDir ''Resources''] [])"
    by simp
  from C2_hard_stop [of fs_no_png args_full
       "[(''.gitkeep'', True), (''us.txt'', True), (''old.png'', False)]"] 3 r
  have c: "main args_full fs_no_png = Inr (finish 2 [NoPngFiles ''Resources''] [])"
    by simp
  from a b c show ?thesis by simp
qed

text \<open>
  C5: a code that is in the extra-allowed-code set passes file name validation in strict
  and in lenient mode alike, whatever the code looks like: the patterns are not consulted.
\<close>

theorem C5_extra_allowed_passes:
  "code \<in> extra_allowed_codes cfg \<Longrightarrow> validate_filename code cfg = (True, None)"
  by (simp add: validate_filename_def)

theorem C5_extra_allowed_passes_witness:
  "''eu'' \<in> extra_allowed_codes (make_config args_full)
   \<and> strict_alpha2 (make_config args_full)
   \<and> \<not> ALPHA2_RE_match ''x-1''
   \<and> validate_filename ''x-1''
        ((make_config args_full)\<lparr> extra_allowed_codes := {''x-1''} \<rparr>) = (True, None)
   \<and> validate_filename ''U S!''
        ((make_config args_plain)\<lparr> extra_allowed_codes := {''U S!''} \<rparr>) = (True, None)"
proof -
  have 1: "''eu'' \<in> extra_allowed_codes (make_config args_full)"
    by code_simp
  have 2: "strict_alpha2 (make_config args_full)"
    by code_simp
  have 3: "\<not> ALPHA2_RE_match ''x-1''"
    by code_simp
  have 4: "''x-1'' \<in> extra_allowed_codes ((make_config args_full)\<lparr> extra_allowed_codes := {''x-1''} \<rparr>)"
    by simp
  have 5: "''U S!'' \<in> extra_allowed_codes ((make_config args_plain)\<lparr> extra_allowed_codes := {''U S!''} \<rparr>)"
    by simp
  from C5_extra_allowed_passes [OF 4] C5_extra_allowed_passes [OF 5] 1 2 3 show ?thesis
    by simp
qed




end
